theory Spec2Isabelle
  imports Complex_Main "HOL-Library.Multiset"
begin

section \<open>SmartLesson: allocation and slot-assignment pipeline\<close>

text \<open>
  A shallow embedding of the Python services \<^verbatim>\<open>services/tos_service.py\<close>,
  \<^verbatim>\<open>services/question_type_service.py\<close> and
  \<^verbatim>\<open>services/tos_slot_assignment_service.py\<close>.

  Conventions of the embedding:
  \<^item> a Python \<^verbatim>\<open>dict\<close> is an association list in insertion order; a dict has no
    repeated key, which theorems state as \<open>distinct (map fst m)\<close> where they need it;
  \<^item> Python's unbounded \<^verbatim>\<open>int\<close> is \<open>int\<close>; \<^verbatim>\<open>range(n)\<close> runs \<open>nat n\<close> times, hence not
    at all for a negative \<open>n\<close>;
  \<^item> an exception is a value \<open>Inl e\<close> of the result type \<open>py_error + 'a\<close>;
  \<^item> point values are Python integers, as in the modules' own examples
    (\<^verbatim>\<open>QuestionType("MCQ", 40, 1)\<close>); sums of non-integral floating-point points are
    not represented;
  \<^item> an object that is compared by identity (\<^verbatim>\<open>id(slot)\<close>) is a pair of its address
    and its fields.
\<close>

subsection \<open>Errors\<close>

datatype py_error =
    IntegrityViolation nat nat
      \<comment> \<open>\<^verbatim>\<open>ValueError("Integrity violation: Bloom distribution (b items) does not match
          question type distribution (t items). ...")\<close>, carrying \<open>b\<close> and \<open>t\<close>\<close>
  | NoAvailableTypes
      \<comment> \<open>\<^verbatim>\<open>ValueError("No available question types to assign (logic error)")\<close>\<close>
  | ZeroDivisionError
  | KeyError string
  | OverflowError

subsection \<open>Data model\<close>

text \<open>
  A learning outcome is the dict \<^verbatim>\<open>{"id": ..., "text": ...}\<close>; the apportionment engine
  reads dicts that also have \<^verbatim>\<open>"hours"\<close> and \<^verbatim>\<open>"weight"\<close>. Functions that read only
  \<^verbatim>\<open>"id"\<close> and \<^verbatim>\<open>"text"\<close> accept either, through the record scheme.
\<close>

record outcome =
  o_id :: int
  o_text :: string


text \<open>\<^verbatim>\<open>QuestionType\<close> of \<^verbatim>\<open>question_type_service.py\<close> (its \<^verbatim>\<open>id\<close> is an opaque UUID string).\<close>

record QuestionType =
  qt_type :: string
  qt_items :: int
  qt_points_per_item :: int
  qt_id :: string

record BloomSlot =
  bs_outcome_id :: int
  bs_outcome_text :: string
  bs_bloom_level :: string

record TypeSlot =
  ts_question_type :: string
  ts_points_per_item :: int

record AssignedSlot =
  outcome_id :: int
  outcome_text :: string
  bloom_level :: string
  question_type :: string
  points :: int

text \<open>\<^verbatim>\<open>tos_matrix: Dict[str, Dict[int, int]]\<close>: Bloom level to (outcome id to item count).\<close>

type_synonym tos_row = "(int \<times> int) list"
type_synonym tos_matrix = "(string \<times> tos_row) list"

subsection \<open>Python helpers\<close>

text \<open>\<^verbatim>\<open>str(n)\<close> for an integer, used by the f-string \<^verbatim>\<open>f"Outcome {outcome_id}"\<close>.\<close>

definition digit_char :: "nat \<Rightarrow> char" where
  "digit_char d = char_of (48 + d)"

fun str_nat :: "nat \<Rightarrow> string" where
  "str_nat n = (if n < 10 then [digit_char n] else str_nat (n div 10) @ [digit_char (n mod 10)])"

declare str_nat.simps [simp del]

definition str_int :: "int \<Rightarrow> string" where
  "str_int i = (if i < 0 then CHR ''-'' # str_nat (nat (- i)) else str_nat (nat i))"

text \<open>\<^verbatim>\<open>d.get(k, default)\<close> on a dict.\<close>

definition dict_get :: "('k \<times> 'v) list \<Rightarrow> 'k \<Rightarrow> 'v \<Rightarrow> 'v" where
  "dict_get d k dflt = (case map_of d k of None \<Rightarrow> dflt | Some v \<Rightarrow> v)"

text \<open>\<^verbatim>\<open>d[k] = v\<close> on a dict: an existing key keeps its position, a new key goes last.\<close>

fun dict_set :: "('k \<times> 'v) list \<Rightarrow> 'k \<Rightarrow> 'v \<Rightarrow> ('k \<times> 'v) list" where
  "dict_set [] k v = [(k, v)]"
| "dict_set ((k', v') # d) k v = (if k' = k then (k, v) # d else (k', v') # dict_set d k v)"

text \<open>\<^verbatim>\<open>"\n".join(lines)\<close>.\<close>

fun join_lines :: "string list \<Rightarrow> string" where
  "join_lines [] = []"
| "join_lines [l] = l"
| "join_lines (l # ls) = l @ CHR 0x0A # join_lines ls"

subsection \<open>The preference table\<close>

text \<open>
  In the source the dict display \<^verbatim>\<open>PREFERRED_TYPES = { """...""" "Remember": [...], ...}\<close>
  opens with a triple-quoted string literal that is followed, with no comma, by the
  literal \<^verbatim>\<open>"Remember"\<close>. Python concatenates adjacent string literals, so the first key
  of the dict is the text below followed by \<^verbatim>\<open>Remember\<close>. The arrow of the source text
  is given in its UTF-8 bytes.
\<close>

definition PREFERRED_TYPES_doc :: string where
  "PREFERRED_TYPES_doc = join_lines [
     '''',
     ''    WHY THIS MAPPING?'',
     ''    '',
     ''    This mapping aligns cognitive complexity with assessment format:'',
     ''    '',
     ''    Remember:'',
     ''    - Recall facts '' @ [CHR 0xE2, CHR 0x86, CHR 0x92] @ '' MCQ (quick check) or Identification (match)'',
     ''    - Prefers: MCQ (fastest verification), Identification (pattern matching)'',
     ''    '',
     ''    Understand:'',
     ''    - Explain concepts '' @ [CHR 0xE2, CHR 0x86, CHR 0x92] @ '' MCQ (comprehension check) or Short Answer'',
     ''    - Prefers: MCQ (concept verification), Short Answer (explain reasoning)'',
     ''    '',
     ''    Apply:'',
     ''    - Use knowledge in context '' @ [CHR 0xE2, CHR 0x86, CHR 0x92] @ '' MCQ (simulated scenario) or Problem Solving'',
     ''    - Prefers: MCQ (scenario-based), Problem Solving (hands-on application)'',
     ''    '',
     ''    Analyze:'',
     ''    - Break down components '' @ [CHR 0xE2, CHR 0x86, CHR 0x92] @ '' Short Answer (explain) or Problem Solving'',
     ''    - Prefers: Short Answer (written analysis), Problem Solving (complex steps)'',
     ''    '',
     ''    Evaluate:'',
     ''    - Judge and justify '' @ [CHR 0xE2, CHR 0x86, CHR 0x92] @ '' Essay (deep argument) or Problem Solving (critical thinking)'',
     ''    - Prefers: Essay (extended argument), Problem Solving (judgment with evidence)'',
     ''    '',
     ''    Create:'',
     ''    - Produce original work '' @ [CHR 0xE2, CHR 0x86, CHR 0x92] @ '' Essay (written composition) or Drawing (visual design)'',
     ''    - Prefers: Essay (new composition), Drawing (design/visualization)'',
     ''    ''
   ]"

definition PREFERRED_TYPES :: "(string \<times> string list) list" where
  "PREFERRED_TYPES = [
     (PREFERRED_TYPES_doc @ ''Remember'', [''MCQ'', ''Identification'']),
     (''Understand'', [''MCQ'', ''Short Answer'']),
     (''Apply'', [''MCQ'', ''Problem Solving'']),
     (''Analyze'', [''Short Answer'', ''Problem Solving'']),
     (''Evaluate'', [''Essay'', ''Problem Solving'']),
     (''Create'', [''Essay'', ''Drawing/Diagram''])]"

subsection \<open>Slot expansion\<close>

text \<open>
  \<^verbatim>\<open>next((o["text"] for o in outcomes if o["id"] == outcome_id), f"Outcome {outcome_id}")\<close>
\<close>

definition lookup_outcome_text :: "'a outcome_scheme list \<Rightarrow> int \<Rightarrow> string" where
  "lookup_outcome_text outcomes oid =
     (case filter (\<lambda>oc. o_id oc = oid) outcomes of
        [] \<Rightarrow> ''Outcome '' @ str_int oid
      | oc # _ \<Rightarrow> o_text oc)"

definition expand_cell ::
  "'a outcome_scheme list \<Rightarrow> string \<Rightarrow> int \<times> int \<Rightarrow> BloomSlot list" where
  "expand_cell outcomes level cell =
     replicate (nat (snd cell))
       \<lparr>bs_outcome_id = fst cell,
        bs_outcome_text = lookup_outcome_text outcomes (fst cell),
        bs_bloom_level = level\<rparr>"

definition expand_bloom_slots :: "tos_matrix \<Rightarrow> 'a outcome_scheme list \<Rightarrow> BloomSlot list" where
  "expand_bloom_slots tos outcomes =
     concat (map (\<lambda>(level, row). concat (map (expand_cell outcomes level) row)) tos)"

definition expand_type_slots :: "QuestionType list \<Rightarrow> TypeSlot list" where
  "expand_type_slots question_types_list =
     concat (map (\<lambda>qt. replicate (nat (qt_items qt))
                    \<lparr>ts_question_type = qt_type qt,
                     ts_points_per_item = qt_points_per_item qt\<rparr>)
                 question_types_list)"

subsection \<open>Soft-preference assignment\<close>

text \<open>
  The metadata dict returned beside the assignment. \<^verbatim>\<open>coverage_quality\<close> is the
  percentage \<^verbatim>\<open>preferred_matches / len(assigned) * 100\<close>, which the source formats to
  one decimal place; the model keeps the number.
\<close>

record integrity_check =
  bloom_slots_expanded :: nat
  type_slots_expanded :: nat
  slots_assigned :: nat
  all_types_used :: bool
  valid :: bool

record metadata =
  total_slots :: nat
  preferred_matches :: nat
  fallback_matches :: nat
  coverage_quality :: rat
  integrity :: integrity_check

text \<open>
  The variables of the matching loop. A new \<^verbatim>\<open>AssignedSlot\<close> object gets the next free
  address, which is the number of objects made so far.
\<close>

record assign_state =
  available_types :: "TypeSlot list"
  assigned :: "(nat \<times> AssignedSlot) list"
  st_preferred_matches :: nat
  st_fallback_matches :: nat

text \<open>
  The inner \<^verbatim>\<open>for idx, type_slot in enumerate(available_types)\<close>: the first index whose
  slot has the wanted type.
\<close>

fun find_type_index :: "string \<Rightarrow> TypeSlot list \<Rightarrow> nat option" where
  "find_type_index pref_type [] = None"
| "find_type_index pref_type (t # ts) =
     (if ts_question_type t = pref_type then Some 0
      else map_option Suc (find_type_index pref_type ts))"

text \<open>The outer \<^verbatim>\<open>for pref_type in preferred\<close>, left at the first hit.\<close>

fun find_preferred :: "string list \<Rightarrow> TypeSlot list \<Rightarrow> nat option" where
  "find_preferred [] avail = None"
| "find_preferred (pref_type # rest) avail =
     (case find_type_index pref_type avail of
        Some idx \<Rightarrow> Some idx
      | None \<Rightarrow> find_preferred rest avail)"

text \<open>\<^verbatim>\<open>xs.pop(idx)\<close> for an index in range.\<close>

definition list_pop :: "'a list \<Rightarrow> nat \<Rightarrow> 'a list" where
  "list_pop xs idx = take idx xs @ drop (Suc idx) xs"

definition bind_slot :: "assign_state \<Rightarrow> BloomSlot \<Rightarrow> nat \<Rightarrow> assign_state" where
  "bind_slot st b idx =
     (let assigned_type = available_types st ! idx;
          assigned_slot = \<lparr>outcome_id = bs_outcome_id b,
                           outcome_text = bs_outcome_text b,
                           bloom_level = bs_bloom_level b,
                           question_type = ts_question_type assigned_type,
                           points = ts_points_per_item assigned_type\<rparr>
      in st\<lparr>assigned := assigned st @ [(length (assigned st), assigned_slot)],
            available_types := list_pop (available_types st) idx\<rparr>)"

text \<open>One pass of \<^verbatim>\<open>for bloom_slot in bloom_slots\<close>.\<close>

definition assign_step :: "assign_state \<Rightarrow> BloomSlot \<Rightarrow> py_error + assign_state" where
  "assign_step st b =
     (let preferred = dict_get PREFERRED_TYPES (bs_bloom_level b) []
      in case find_preferred preferred (available_types st) of
           Some idx \<Rightarrow>
             Inr (bind_slot (st\<lparr>st_preferred_matches := st_preferred_matches st + 1\<rparr>) b idx)
         | None \<Rightarrow>
             (if available_types st \<noteq> []
              then Inr (bind_slot (st\<lparr>st_fallback_matches := st_fallback_matches st + 1\<rparr>) b 0)
              else Inl NoAvailableTypes))"

fun assign_loop :: "assign_state \<Rightarrow> BloomSlot list \<Rightarrow> py_error + assign_state" where
  "assign_loop st [] = Inr st"
| "assign_loop st (b # bs) =
     (case assign_step st b of
        Inl e \<Rightarrow> Inl e
      | Inr st' \<Rightarrow> assign_loop st' bs)"

text \<open>
  \<^verbatim>\<open>random.shuffle\<close> is the standard library's Fisher-Yates loop
  \<^verbatim>\<open>for i in reversed(range(1, len(x))): j = randbelow(i + 1); x[i], x[j] = x[j], x[i]\<close>.
  The state of the global generator is the list of the raw numbers it will produce
  next.
\<close>

type_synonym rng = "nat list"

definition randbelow :: "nat \<Rightarrow> rng \<Rightarrow> nat \<times> rng" where
  "randbelow n g = (case g of [] \<Rightarrow> (0, []) | r # g' \<Rightarrow> (r mod n, g'))"

fun shuffle_from :: "nat \<Rightarrow> 'a list \<Rightarrow> rng \<Rightarrow> 'a list" where
  "shuffle_from 0 xs g = xs"
| "shuffle_from (Suc k) xs g =
     (let (j, g') = randbelow (Suc k + 1) g
      in shuffle_from k (xs[Suc k := xs ! j, j := xs ! Suc k]) g')"

definition random_shuffle :: "'a list \<Rightarrow> rng \<Rightarrow> 'a list" where
  "random_shuffle xs g = shuffle_from (length xs - 1) xs g"

definition assign_question_types_to_bloom_slots ::
  "tos_matrix \<Rightarrow> 'a outcome_scheme list \<Rightarrow> QuestionType list \<Rightarrow> bool \<Rightarrow> rng
     \<Rightarrow> py_error + ((nat \<times> AssignedSlot) list \<times> metadata)" where
  "assign_question_types_to_bloom_slots tos outcomes question_types_list shuffle g =
     (let bloom_slots = expand_bloom_slots tos outcomes;
          total_bloom_items = length bloom_slots;
          type_slots = expand_type_slots question_types_list;
          total_type_items = length type_slots
      in if total_bloom_items \<noteq> total_type_items
         then Inl (IntegrityViolation total_bloom_items total_type_items)
         else
           case assign_loop \<lparr>available_types = type_slots, assigned = [],
                              st_preferred_matches = 0, st_fallback_matches = 0\<rparr> bloom_slots of
             Inl e \<Rightarrow> Inl e
           | Inr st \<Rightarrow>
               (let result = (if shuffle then random_shuffle (assigned st) g else assigned st)
                in if length result = 0 then Inl ZeroDivisionError
                   else Inr (result,
                     \<lparr>total_slots = length result,
                      preferred_matches = st_preferred_matches st,
                      fallback_matches = st_fallback_matches st,
                      coverage_quality =
                        of_nat (st_preferred_matches st) / of_nat (length result) * 100,
                      integrity =
                        \<lparr>bloom_slots_expanded = total_bloom_items,
                         type_slots_expanded = total_type_items,
                         slots_assigned = length result,
                         all_types_used = (length (available_types st) = 0),
                         valid = (total_bloom_items = total_type_items
                                  \<and> total_type_items = length result)\<rparr>\<rparr>)))"

subsection \<open>Integrity verification\<close>

text \<open>The error strings of \<^verbatim>\<open>verify_assignment_integrity\<close>, with the values they print.\<close>

datatype verify_error =
    BloomCountMismatch string int int
      \<comment> \<open>\<^verbatim>\<open>Bloom '{level}' expected {e} items, got {a}\<close>\<close>
  | TypeCountMismatch string int int
      \<comment> \<open>\<^verbatim>\<open>Question type '{type}' expected {e} items, got {a}\<close>\<close>
  | TypePointsMismatch string int int
      \<comment> \<open>\<^verbatim>\<open>Question type '{type}' expected {e} total points, got {a}\<close>\<close>
  | DuplicateAssignments
      \<comment> \<open>\<^verbatim>\<open>Duplicate assignments detected (data structure issue)\<close>\<close>

text \<open>\<^verbatim>\<open>for slot in assigned_slots: counts[k] = counts.get(k, 0) + v\<close>.\<close>

definition tally :: "('a \<Rightarrow> string) \<Rightarrow> ('a \<Rightarrow> int) \<Rightarrow> 'a list \<Rightarrow> (string \<times> int) list" where
  "tally key amount slots =
     fold (\<lambda>slot counts. dict_set counts (key slot) (dict_get counts (key slot) 0 + amount slot))
          slots []"

definition check_bloom ::
  "(string \<times> int) list \<Rightarrow> string \<times> tos_row \<Rightarrow> verify_error list" where
  "check_bloom bloom_counts entry =
     (let expected_count = sum_list (map snd (snd entry));
          actual_count = dict_get bloom_counts (fst entry) 0
      in if expected_count \<noteq> actual_count
         then [BloomCountMismatch (fst entry) expected_count actual_count] else [])"

definition check_type ::
  "(string \<times> int) list \<Rightarrow> (string \<times> int) list \<Rightarrow> QuestionType \<Rightarrow> verify_error list" where
  "check_type type_counts type_points_sum qt =
     (let expected_count = qt_items qt;
          actual_count = dict_get type_counts (qt_type qt) 0;
          expected_points = qt_items qt * qt_points_per_item qt;
          actual_points = dict_get type_points_sum (qt_type qt) 0
      in (if expected_count \<noteq> actual_count
          then [TypeCountMismatch (qt_type qt) expected_count actual_count] else [])
         @ (if expected_points \<noteq> actual_points
            then [TypePointsMismatch (qt_type qt) expected_points actual_points] else []))"

definition verify_assignment_integrity ::
  "(nat \<times> AssignedSlot) list \<Rightarrow> tos_matrix \<Rightarrow> QuestionType list
     \<Rightarrow> bool \<times> verify_error list" where
  "verify_assignment_integrity assigned_slots tos question_types_list =
     (let slots = map snd assigned_slots;
          bloom_counts = tally bloom_level (\<lambda>_. 1) slots;
          type_counts = tally question_type (\<lambda>_. 1) slots;
          type_points_sum = tally question_type points slots;
          errors =
            concat (map (check_bloom bloom_counts) tos)
            @ concat (map (check_type type_counts type_points_sum) question_types_list)
            @ (if length assigned_slots \<noteq> card (set (map fst assigned_slots))
               then [DuplicateAssignments] else [])
      in (length errors = 0, errors))"

subsection \<open>Totals and cells of a TOS matrix\<close>

text \<open>
  \<^verbatim>\<open>sum(tos_matrix[level].values())\<close>, the grand total over all cells, the cell of a level
  and an outcome (0 where the matrix has no such cell), and the number of expanded slots in
  the group of a level and an outcome.
\<close>

definition row_total :: "tos_row \<Rightarrow> int" where
  "row_total row = sum_list (map snd row)"

definition matrix_total :: "tos_matrix \<Rightarrow> int" where
  "matrix_total tos = sum_list (map (\<lambda>entry. row_total (snd entry)) tos)"

definition matrix_cell :: "tos_matrix \<Rightarrow> string \<Rightarrow> int \<Rightarrow> int" where
  "matrix_cell tos level oid = dict_get (dict_get tos level []) oid 0"

definition is_dict :: "('k \<times> 'v) list \<Rightarrow> bool" where
  "is_dict d = distinct (map fst d)"

definition wf_tos_matrix :: "tos_matrix \<Rightarrow> bool" where
  "wf_tos_matrix tos =
     (is_dict tos
      \<and> (\<forall>entry \<in> set tos. is_dict (snd entry) \<and> (\<forall>cell \<in> set (snd entry). 0 \<le> snd cell)))"

definition group_count :: "BloomSlot list \<Rightarrow> string \<Rightarrow> int \<Rightarrow> int" where
  "group_count slots level oid =
     int (length (filter (\<lambda>s. bs_bloom_level s = level \<and> bs_outcome_id s = oid) slots))"




subsection \<open>The scenario of \<^verbatim>\<open>verify_softmapping_algo.py\<close>\<close>

definition scenario_tos :: tos_matrix where
  "scenario_tos = [(''Remember'', [(0, 12)]), (''Apply'', [(0, 8)])]"

definition scenario_outcomes :: "outcome list" where
  "scenario_outcomes = [\<lparr>o_id = 0, o_text = ''Understand core concepts''\<rparr>]"

definition scenario_types :: "QuestionType list" where
  "scenario_types =
     [\<lparr>qt_type = ''MCQ'', qt_items = 12, qt_points_per_item = 1, qt_id = ''a''\<rparr>,
      \<lparr>qt_type = ''Problem Solving'', qt_items = 8, qt_points_per_item = 2, qt_id = ''b''\<rparr>]"

text \<open>A distribution of eleven items, the first entry alone being ten.\<close>

definition mismatch_types :: "QuestionType list" where
  "mismatch_types =
     [\<lparr>qt_type = ''MCQ'', qt_items = 10, qt_points_per_item = 1, qt_id = ''a''\<rparr>,
      \<lparr>qt_type = ''Essay'', qt_items = 1, qt_points_per_item = 5, qt_id = ''b''\<rparr>]"

text \<open>
  A matrix and a distribution of two items each, where the pool lists the essay before the
  multiple-choice item.
\<close>

definition swapped_tos :: tos_matrix where
  "swapped_tos = [(''Remember'', [(0, 1)]), (''Evaluate'', [(0, 1)])]"

definition swapped_types :: "QuestionType list" where
  "swapped_types =
     [\<lparr>qt_type = ''Essay'', qt_items = 1, qt_points_per_item = 5, qt_id = ''a''\<rparr>,
      \<lparr>qt_type = ''MCQ'', qt_items = 1, qt_points_per_item = 1, qt_id = ''b''\<rparr>]"

text \<open>An assigned slot whose level and type occur in no matrix or distribution used here.\<close>

definition foreign_slot :: AssignedSlot where
  "foreign_slot = \<lparr>outcome_id = 7, outcome_text = ''x'', bloom_level = ''Synthesize'',
                   question_type = ''Matching'', points = 3\<rparr>"

subsection \<open>Predicates of the statements\<close>


text \<open>
  Two results of the assignment that agree up to the order of the assigned slots: the same
  error, or the same multiset of slots with the same metadata.
\<close>

definition same_up_to_order ::
  "py_error + ((nat \<times> AssignedSlot) list \<times> metadata)
   \<Rightarrow> py_error + ((nat \<times> AssignedSlot) list \<times> metadata) \<Rightarrow> bool" where
  "same_up_to_order r r' =
     (case (r, r') of
        (Inr (xs, md), Inr (ys, md')) \<Rightarrow> mset xs = mset ys \<and> md = md'
      | (Inl e, Inl e') \<Rightarrow> e = e'
      | _ \<Rightarrow> False)"




subsection \<open>Validation of a question-type distribution\<close>

text \<open>
  The messages of \<^verbatim>\<open>validate_question_type_distribution\<close> with the values they print. The
  duplicate message joins \<^verbatim>\<open>set(duplicates)\<close>, whose order is not fixed, so it carries
  the set.
\<close>

datatype validation_error =
    NoQuestionTypes
  | ItemSumMismatch int int
  | ItemsNotPositive string int
  | PointsNotPositive string int
  | DuplicateTypes "string set"

definition check_positive :: "QuestionType \<Rightarrow> validation_error list" where
  "check_positive qt =
     (if qt_items qt \<le> 0 then [ItemsNotPositive (qt_type qt) (qt_items qt)] else [])
     @ (if qt_points_per_item qt \<le> 0
        then [PointsNotPositive (qt_type qt) (qt_points_per_item qt)] else [])"

definition validate_question_type_distribution ::
  "QuestionType list \<Rightarrow> int \<Rightarrow> bool \<times> validation_error list" where
  "validate_question_type_distribution question_types total_test_items =
     (if question_types = [] then (False, [NoQuestionTypes])
      else
        let total_items = sum_list (map qt_items question_types);
            type_names = map qt_type question_types;
            duplicates = filter (\<lambda>name. count_list type_names name > 1) type_names;
            errors =
              (if total_items \<noteq> total_test_items
               then [ItemSumMismatch total_items total_test_items] else [])
              @ concat (map check_positive question_types)
              @ (if duplicates \<noteq> [] then [DuplicateTypes (set duplicates)] else [])
        in (length errors = 0, errors))"

text \<open>The type labels that occur in more than one entry.\<close>

definition duplicate_names :: "QuestionType list \<Rightarrow> string set" where
  "duplicate_names qts = {name \<in> qt_type ` set qts. 1 < count_list (map qt_type qts) name}"

text \<open>The distribution of the function's docstring, and one that breaks every rule.\<close>

definition docstring_types :: "QuestionType list" where
  "docstring_types =
     [\<lparr>qt_type = ''MCQ'', qt_items = 40, qt_points_per_item = 1, qt_id = ''a''\<rparr>,
      \<lparr>qt_type = ''Essay'', qt_items = 2, qt_points_per_item = 10, qt_id = ''b''\<rparr>]"

definition invalid_types :: "QuestionType list" where
  "invalid_types =
     [\<lparr>qt_type = ''MCQ'', qt_items = 0, qt_points_per_item = 1, qt_id = ''a''\<rparr>,
      \<lparr>qt_type = ''MCQ'', qt_items = 3, qt_points_per_item = 0, qt_id = ''b''\<rparr>]"


subsection \<open>Largest-remainder allocation\<close>












subsection \<open>Bloom totals\<close>

text \<open>
  \<^verbatim>\<open>compute_bloom_item_totals\<close> computes \<^verbatim>\<open>int(total_items * (bloom_weights[bloom] / 100))\<close>
  in binary64 floating point. A finite binary64 value is a pair \<open>(m, e)\<close> that stands for
  \<open>m * 2 ^ e\<close>. Each operation returns the exact result rounded to 53 significant bits, to
  nearest, ties to even. The exponent is not bounded below (integer operands give no value
  under \<open>2 ^ -1022\<close>); a value of \<open>2 ^ 1024\<close> or more overflows, and Python then raises
  \<^verbatim>\<open>OverflowError\<close>, from the division, from the conversion of \<^verbatim>\<open>total_items\<close>, or from
  \<^verbatim>\<open>int()\<close> of the infinite product.
\<close>

type_synonym binary64 = "int \<times> int"

text \<open>\<^verbatim>\<open>int.bit_length()\<close> of a non-negative integer.\<close>

function bit_length :: "int \<Rightarrow> int" where
  "bit_length n = (if n \<le> 0 then 0 else 1 + bit_length (n div 2))"
  by pat_completeness auto
termination
  by (relation "measure nat") auto

declare bit_length.simps [simp del]

text \<open>The integer nearest to \<open>n / d\<close> for \<open>0 \<le> n\<close> and \<open>0 < d\<close>, ties to even.\<close>

definition round_half_even :: "int \<Rightarrow> int \<Rightarrow> int" where
  "round_half_even n d =
     (let q = n div d; r = n mod d
      in if d < 2 * r \<or> (2 * r = d \<and> odd q) then q + 1 else q)"

text \<open>The floor of the binary logarithm of \<open>p / q\<close> for positive \<open>p\<close> and \<open>q\<close>.\<close>

definition floor_log2 :: "int \<Rightarrow> int \<Rightarrow> int" where
  "floor_log2 p q =
     (let k = bit_length p - bit_length q
      in if (if 0 \<le> k then q * 2 ^ nat k \<le> p else q \<le> p * 2 ^ nat (- k)) then k else k - 1)"

text \<open>The binary64 value nearest to \<open>p / q\<close>, for \<open>0 < q\<close>.\<close>

definition round_binary64 :: "int \<Rightarrow> int \<Rightarrow> binary64" where
  "round_binary64 p q =
     (if p = 0 then (0, 0)
      else
        let a = \<bar>p\<bar>;
            e = floor_log2 a q - 52;
            m = (if 0 \<le> e then round_half_even a (q * 2 ^ nat e)
                 else round_half_even (a * 2 ^ nat (- e)) q)
        in (sgn p * m, e))"

definition overflows :: "binary64 \<Rightarrow> bool" where
  "overflows x = (0 \<le> snd x \<and> 2 ^ 1024 \<le> \<bar>fst x\<bar> * 2 ^ nat (snd x))"

text \<open>
  \<^verbatim>\<open>a / b\<close> on two ints (the divisor here is the literal 100), \<^verbatim>\<open>float(n)\<close>,
  \<^verbatim>\<open>x * y\<close> on two floats, and \<^verbatim>\<open>int(x)\<close>, which truncates toward zero.
\<close>

definition int_true_div :: "int \<Rightarrow> int \<Rightarrow> binary64" where
  "int_true_div a b = round_binary64 a b"

definition float_of_int :: "int \<Rightarrow> binary64" where
  "float_of_int n = round_binary64 n 1"

definition float_mul :: "binary64 \<Rightarrow> binary64 \<Rightarrow> binary64" where
  "float_mul x y =
     (let m = fst x * fst y; e = snd x + snd y
      in if 0 \<le> e then round_binary64 (m * 2 ^ nat e) 1 else round_binary64 m (2 ^ nat (- e)))"

definition int_of_float :: "binary64 \<Rightarrow> int" where
  "int_of_float x =
     (if 0 \<le> snd x then fst x * 2 ^ nat (snd x)
      else sgn (fst x) * (\<bar>fst x\<bar> div 2 ^ nat (- snd x)))"

definition BLOOM_LEVELS :: "string list" where
  "BLOOM_LEVELS = [''Remember'', ''Understand'', ''Apply'', ''Analyze'', ''Evaluate'', ''Create'']"

text \<open>
  \<^verbatim>\<open>count = int(total_items * (bloom_weights[bloom] / 100))\<close>; a level missing from the
  weights raises \<^verbatim>\<open>KeyError\<close>.
\<close>

definition bloom_count :: "(string \<times> int) list \<Rightarrow> int \<Rightarrow> string \<Rightarrow> py_error + int" where
  "bloom_count bloom_weights total_items bloom =
     (case map_of bloom_weights bloom of
        None \<Rightarrow> Inl (KeyError bloom)
      | Some w \<Rightarrow>
          (let share = int_true_div w 100;
               items = float_of_int total_items;
               product = float_mul items share
           in if overflows share \<or> overflows items \<or> overflows product
              then Inl OverflowError
              else Inr (int_of_float product)))"

text \<open>
  \<^verbatim>\<open>for bloom in BLOOM_LEVELS[:-1]\<close>, with the dict \<^verbatim>\<open>bloom_items\<close> and \<^verbatim>\<open>remainder\<close> as
  state; the last level then gets the remainder.
\<close>

fun totals_loop ::
  "(string \<times> int) list \<Rightarrow> int \<Rightarrow> string list \<Rightarrow> (string \<times> int) list \<times> int
     \<Rightarrow> py_error + ((string \<times> int) list \<times> int)" where
  "totals_loop bloom_weights total_items [] st = Inr st"
| "totals_loop bloom_weights total_items (bloom # rest) st =
     (case bloom_count bloom_weights total_items bloom of
        Inl e \<Rightarrow> Inl e
      | Inr n \<Rightarrow>
          totals_loop bloom_weights total_items rest
            (dict_set (fst st) bloom n, snd st - n))"

definition compute_bloom_item_totals ::
  "(string \<times> int) list \<Rightarrow> int \<Rightarrow> py_error + (string \<times> int) list" where
  "compute_bloom_item_totals bloom_weights total_items =
     (case totals_loop bloom_weights total_items (butlast BLOOM_LEVELS) ([], total_items) of
        Inl e \<Rightarrow> Inl e
      | Inr (bloom_items, remainder) \<Rightarrow>
          Inr (dict_set bloom_items (last BLOOM_LEVELS) remainder))"

text \<open>
  Weights that the sliders of the application can produce (steps of 5, summing to 100).
\<close>

definition slider_weights :: "(string \<times> int) list" where
  "slider_weights =
     [(''Remember'', 70), (''Understand'', 30), (''Apply'', 0), (''Analyze'', 0),
      (''Evaluate'', 0), (''Create'', 0)]"


section \<open>Slot expansion\<close>

lemma length_expand_cell: "length (expand_cell outcomes level cell) = nat (snd cell)"
  by (simp add: expand_cell_def)

lemma length_concat_row:
  "\<forall>cell \<in> set row. 0 \<le> snd cell \<Longrightarrow>
   int (length (concat (map (expand_cell outcomes level) row))) = row_total row"
  by (induction row) (auto simp: row_total_def length_expand_cell)

lemma length_expand_bloom_slots:
  "\<forall>entry \<in> set tos. \<forall>cell \<in> set (snd entry). 0 \<le> snd cell \<Longrightarrow>
   int (length (expand_bloom_slots tos outcomes)) = matrix_total tos"
  by (induction tos) (auto simp: expand_bloom_slots_def matrix_total_def length_concat_row)

lemma filter_expand_cell:
  "filter (\<lambda>s. bs_bloom_level s = level \<and> bs_outcome_id s = oid) (expand_cell outcomes l cell)
   = (if l = level \<and> fst cell = oid then expand_cell outcomes l cell else [])"
  by (auto simp: expand_cell_def)

lemma group_count_row:
  "distinct (map fst row) \<Longrightarrow> \<forall>cell \<in> set row. 0 \<le> snd cell \<Longrightarrow>
   group_count (concat (map (expand_cell outcomes l) row)) level oid
   = (if l = level then dict_get row oid 0 else 0)"
proof (induction row)
  case Nil
  then show ?case by (simp add: group_count_def dict_get_def)
next
  case (Cons c row)
  obtain k n where c: "c = (k, n)" by (cases c)
  from Cons.prems have d: "distinct (map fst row)" and nn: "\<forall>cell \<in> set row. 0 \<le> snd cell"
    and k: "k \<notin> fst ` set row" and n: "0 \<le> n" by (auto simp: c)
  have ih: "group_count (concat (map (expand_cell outcomes l) row)) level oid
    = (if l = level then dict_get row oid 0 else 0)" using Cons.IH d nn by simp
  have notin: "k = oid \<Longrightarrow> map_of row oid = None" using k by (simp add: map_of_eq_None_iff)
  show ?case using ih n notin
    by (auto simp: group_count_def filter_expand_cell c length_expand_cell dict_get_def)
qed

lemma group_count_append:
  "group_count (xs @ ys) level oid = group_count xs level oid + group_count ys level oid"
  by (simp add: group_count_def)

lemma group_count_foreign:
  "\<forall>s \<in> set xs. bs_bloom_level s \<noteq> level \<Longrightarrow> group_count xs level oid = 0"
  by (induction xs) (auto simp: group_count_def)


lemma group_count_matrix:
  "wf_tos_matrix tos \<Longrightarrow>
   group_count (expand_bloom_slots tos outcomes) level oid = matrix_cell tos level oid"
proof (induction tos)
  case Nil
  then show ?case by (simp add: expand_bloom_slots_def group_count_def matrix_cell_def dict_get_def)
next
  case (Cons e tos)
  obtain l row where e: "e = (l, row)" by (cases e)
  from Cons.prems have wf: "wf_tos_matrix tos" and l: "l \<notin> fst ` set tos"
    and dr: "distinct (map fst row)" and nn: "\<forall>cell \<in> set row. 0 \<le> snd cell"
    by (auto simp: wf_tos_matrix_def is_dict_def e)
  have ih: "group_count (expand_bloom_slots tos outcomes) level oid = matrix_cell tos level oid"
    using Cons.IH wf by simp
  have unfold: "expand_bloom_slots (e # tos) outcomes
     = concat (map (expand_cell outcomes l) row) @ expand_bloom_slots tos outcomes"
    by (simp add: expand_bloom_slots_def e)
  have "l = level \<Longrightarrow> map_of tos level = None"
    using l by (simp add: map_of_eq_None_iff)
  then have none: "l = level \<Longrightarrow> matrix_cell tos level oid = 0"
    by (simp add: matrix_cell_def dict_get_def)
  have cell: "matrix_cell (e # tos) level oid
     = (if l = level then dict_get row oid 0 else matrix_cell tos level oid)"
    by (simp add: matrix_cell_def dict_get_def e)
  show ?case
    unfolding unfold group_count_append cell ih group_count_row [OF dr nn]
    using none by simp
qed

text \<open>
  Claim C7. For every TOS matrix (a dict of dicts of non-negative item counts),
  \<^verbatim>\<open>expand_bloom_slots\<close> returns as many slots as the sum of all cells, and the number of
  returned slots in the group of a Bloom level and an outcome id is the cell of the matrix
  for that level and outcome; a pair that is no cell of the matrix has an empty group.
\<close>

theorem expand_bloom_slots_round_trip:
  assumes "wf_tos_matrix tos"
  shows "int (length (expand_bloom_slots tos outcomes)) = matrix_total tos
       \<and> (\<forall>level oid. group_count (expand_bloom_slots tos outcomes) level oid
                        = matrix_cell tos level oid)"
  using assms length_expand_bloom_slots [of tos outcomes] group_count_matrix [of tos outcomes]
  by (auto simp: wf_tos_matrix_def)

theorem expand_bloom_slots_round_trip_witness:
  "wf_tos_matrix scenario_tos
   \<and> length (expand_bloom_slots scenario_tos scenario_outcomes) = 20
   \<and> group_count (expand_bloom_slots scenario_tos scenario_outcomes) ''Remember'' 0 = 12
   \<and> group_count (expand_bloom_slots scenario_tos scenario_outcomes) ''Apply'' 0 = 8
   \<and> group_count (expand_bloom_slots scenario_tos scenario_outcomes) ''Create'' 0 = 0"
proof -
  have h: "wf_tos_matrix scenario_tos"
    by (simp add: wf_tos_matrix_def is_dict_def scenario_tos_def)
  have t: "matrix_total scenario_tos = 20"
    by (simp add: matrix_total_def row_total_def scenario_tos_def)
  have c: "matrix_cell scenario_tos ''Remember'' 0 = 12" "matrix_cell scenario_tos ''Apply'' 0 = 8"
    "matrix_cell scenario_tos ''Create'' 0 = 0"
    by (simp_all add: matrix_cell_def dict_get_def scenario_tos_def)
  show ?thesis
    using h t c expand_bloom_slots_round_trip [OF h, of scenario_outcomes] by simp
qed


section \<open>Errors of the assignment\<close>

lemma assign_step_error: "assign_step st b = Inl e \<Longrightarrow> e = NoAvailableTypes"
  by (auto simp: assign_step_def Let_def split: option.splits if_splits)

lemma assign_loop_error: "assign_loop st bs = Inl e \<Longrightarrow> e = NoAvailableTypes"
  by (induction bs arbitrary: st) (auto split: sum.splits dest: assign_step_error)

text \<open>
  Claim C3. When the number of expanded Bloom slots differs from the number of expanded type
  slots, \<^verbatim>\<open>assign_question_types_to_bloom_slots\<close> raises the integrity-violation
  \<^verbatim>\<open>ValueError\<close>, whose message carries both totals, and nothing is assigned: the result is
  the error alone. When the two numbers are equal it raises no integrity violation, whatever
  totals the message would name.
\<close>

theorem assign_integrity_violation:
  "(length (expand_bloom_slots tos outcomes) \<noteq> length (expand_type_slots qts) \<longrightarrow>
      assign_question_types_to_bloom_slots tos outcomes qts shuffle g
        = Inl (IntegrityViolation (length (expand_bloom_slots tos outcomes))
                                  (length (expand_type_slots qts))))
   \<and> (length (expand_bloom_slots tos outcomes) = length (expand_type_slots qts) \<longrightarrow>
      (\<forall>b t. assign_question_types_to_bloom_slots tos outcomes qts shuffle g
               \<noteq> Inl (IntegrityViolation b t)))"
  by (auto simp: assign_question_types_to_bloom_slots_def Let_def
           split: sum.splits dest: assign_loop_error)

text \<open>Ten items in the matrix against eleven in the distribution, and ten against ten.\<close>

theorem assign_integrity_violation_witness:
  "length (expand_bloom_slots [(''Remember'', [(0, 6), (1, 4)])] scenario_outcomes) = 10
   \<and> length (expand_type_slots mismatch_types) = 11
   \<and> assign_question_types_to_bloom_slots [(''Remember'', [(0, 6), (1, 4)])]
        scenario_outcomes mismatch_types False [] = Inl (IntegrityViolation 10 11)
   \<and> length (expand_type_slots [hd mismatch_types]) = 10
   \<and> assign_question_types_to_bloom_slots [(''Remember'', [(0, 6), (1, 4)])]
        scenario_outcomes [hd mismatch_types] False [] \<noteq> Inl (IntegrityViolation 10 11)"
proof -
  have b: "length (expand_bloom_slots [(''Remember'', [(0, 6), (1, 4)])] scenario_outcomes) = 10"
    by (simp add: expand_bloom_slots_def expand_cell_def)
  have t: "length (expand_type_slots mismatch_types) = 11"
    by (simp add: expand_type_slots_def mismatch_types_def)
  have t': "length (expand_type_slots [hd mismatch_types]) = 10"
    by (simp add: expand_type_slots_def mismatch_types_def)
  show ?thesis
    using b t t'
      assign_integrity_violation [of "[(''Remember'', [(0, 6), (1, 4)])]" scenario_outcomes
        mismatch_types False "[]"]
      assign_integrity_violation [of "[(''Remember'', [(0, 6), (1, 4)])]" scenario_outcomes
        "[hd mismatch_types]" False "[]"]
    by simp
qed

text \<open>
  Claim C9. When both axes expand to zero slots the equal-length check passes, the loop
  assigns nothing, and the metadata's \<^verbatim>\<open>preferred_matches / len(assigned)\<close> divides by
  zero: the call raises \<^verbatim>\<open>ZeroDivisionError\<close> instead of returning an empty assignment,
  with or without shuffling.
\<close>

theorem assign_empty_zero_division:
  assumes "expand_bloom_slots tos outcomes = []" and "expand_type_slots qts = []"
  shows "assign_question_types_to_bloom_slots tos outcomes qts shuffle g = Inl ZeroDivisionError"
  using assms
  by (simp add: assign_question_types_to_bloom_slots_def random_shuffle_def)

text \<open>A matrix with a zero cell and an empty row, and the empty matrix, with no types.\<close>

theorem assign_empty_zero_division_witness:
  "expand_bloom_slots [(''Remember'', [(0, 0)]), (''Apply'', [])] scenario_outcomes = []
   \<and> expand_type_slots [] = []
   \<and> assign_question_types_to_bloom_slots [(''Remember'', [(0, 0)]), (''Apply'', [])]
        scenario_outcomes [] False [] = Inl ZeroDivisionError
   \<and> assign_question_types_to_bloom_slots [] ([] :: outcome list) [] True [3, 1]
        = Inl ZeroDivisionError"
proof -
  have b: "expand_bloom_slots [(''Remember'', [(0, 0)]), (''Apply'', [])] scenario_outcomes = []"
    by (simp add: expand_bloom_slots_def expand_cell_def)
  have b': "expand_bloom_slots [] ([] :: outcome list) = []"
    by (simp add: expand_bloom_slots_def)
  have t: "expand_type_slots [] = []"
    by (simp add: expand_type_slots_def)
  show ?thesis
    using b t assign_empty_zero_division [OF b t, of False "[]"]
      assign_empty_zero_division [OF b' t, of True "[3, 1]"]
    by simp
qed


section \<open>Integrity verification\<close>

lemma map_of_dict_set: "map_of (dict_set d k v) = (map_of d)(k \<mapsto> v)"
  by (induction d) (auto simp: fun_eq_iff)

lemma dict_get_dict_set:
  "dict_get (dict_set d k v) k' dflt = (if k' = k then v else dict_get d k' dflt)"
  by (simp add: dict_get_def map_of_dict_set)

lemma dict_get_Nil: "dict_get [] k dflt = dflt"
  by (simp add: dict_get_def)

lemma tally_fold:
  "dict_get (fold (\<lambda>slot counts. dict_set counts (key slot) (dict_get counts (key slot) 0 + amount slot))
                  slots d) k 0
   = dict_get d k 0 + sum_list (map amount (filter (\<lambda>s. key s = k) slots))"
proof (induction slots arbitrary: d)
  case Nil
  then show ?case by simp
next
  case (Cons s slots)
  show ?case
    by (simp add: Cons.IH dict_get_dict_set add.assoc)
qed

lemma dict_get_tally:
  "dict_get (tally key amount slots) k 0 = sum_list (map amount (filter (\<lambda>s. key s = k) slots))"
  by (simp add: tally_def tally_fold dict_get_Nil)

lemma check_bloom_foreign:
  assumes "bloom_level s \<noteq> fst entry"
  shows "check_bloom (tally bloom_level (\<lambda>_. 1) (s # slots)) entry
       = check_bloom (tally bloom_level (\<lambda>_. 1) slots) entry"
  using assms by (simp add: check_bloom_def dict_get_tally)

lemma check_type_foreign:
  assumes "question_type s \<noteq> qt_type qt"
  shows "check_type (tally question_type (\<lambda>_. 1) (s # slots)) (tally question_type points (s # slots)) qt
       = check_type (tally question_type (\<lambda>_. 1) slots) (tally question_type points slots) qt"
  using assms by (simp add: check_type_def dict_get_tally)

text \<open>
  Claim C10. \<^verbatim>\<open>verify_assignment_integrity\<close> compares counts only for the Bloom levels that
  are keys of the matrix and for the question types of the distribution. An assigned slot
  whose level is no key of the matrix and whose type is in no entry of the distribution, and
  which is a new object, changes no check: the verdict with it is the verdict without it. So
  a single such slot passes against the empty matrix and the empty distribution, although
  the matrix totals zero items.
\<close>

theorem verify_ignores_foreign_slot:
  assumes "bloom_level s \<notin> fst ` set tos"
    and "question_type s \<notin> qt_type ` set qts"
    and "a \<notin> fst ` set xs"
  shows "verify_assignment_integrity ((a, s) # xs) tos qts = verify_assignment_integrity xs tos qts"
proof -
  have b: "map (check_bloom (tally bloom_level (\<lambda>_. 1) (map snd ((a, s) # xs)))) tos
         = map (check_bloom (tally bloom_level (\<lambda>_. 1) (map snd xs))) tos"
    using assms(1) by (auto intro!: check_bloom_foreign)
  have t: "map (check_type (tally question_type (\<lambda>_. 1) (map snd ((a, s) # xs)))
                           (tally question_type points (map snd ((a, s) # xs)))) qts
         = map (check_type (tally question_type (\<lambda>_. 1) (map snd xs))
                           (tally question_type points (map snd xs))) qts"
    using assms(2) by (auto intro!: check_type_foreign)
  have d: "(length ((a, s) # xs) \<noteq> card (set (map fst ((a, s) # xs))))
         = (length xs \<noteq> card (set (map fst xs)))"
    using assms(3) by simp
  show ?thesis
    unfolding verify_assignment_integrity_def Let_def b t d ..
qed

theorem verify_ignores_foreign_slot_witness:
  "bloom_level foreign_slot \<notin> fst ` set ([] :: tos_matrix)
   \<and> question_type foreign_slot \<notin> qt_type ` set []
   \<and> 0 \<notin> fst ` set ([] :: (nat \<times> AssignedSlot) list)
   \<and> verify_assignment_integrity [(0, foreign_slot)] [] [] = (True, [])
   \<and> int (length [(0 :: nat, foreign_slot)]) \<noteq> matrix_total []"
proof -
  have e: "verify_assignment_integrity [] [] [] = (True, [])"
    by (simp add: verify_assignment_integrity_def tally_def)
  show ?thesis
    using e verify_ignores_foreign_slot [of foreign_slot "[]" "[]" 0 "[]"]
    by (simp add: matrix_total_def)
qed


section \<open>The preference table at run time\<close>

text \<open>
  The first key of \<^verbatim>\<open>PREFERRED_TYPES\<close> starts with a line feed, so it is none of the six
  level names: \<^verbatim>\<open>PREFERRED_TYPES.get("Remember", [])\<close> is the empty list.
\<close>

lemma doc_Cons: "\<exists>t. PREFERRED_TYPES_doc = CHR 0x0A # t"
  by (simp add: PREFERRED_TYPES_doc_def)

lemma doc_key:
  "PREFERRED_TYPES_doc @ ''Remember'' \<noteq> CHR ''R'' # t"
  "PREFERRED_TYPES_doc @ ''Remember'' \<noteq> CHR ''U'' # t"
  "PREFERRED_TYPES_doc @ ''Remember'' \<noteq> CHR ''A'' # t"
  "PREFERRED_TYPES_doc @ ''Remember'' \<noteq> CHR ''E'' # t"
  "PREFERRED_TYPES_doc @ ''Remember'' \<noteq> CHR ''C'' # t"
proof -
  from doc_Cons obtain u where u: "PREFERRED_TYPES_doc = CHR 0x0A # u" ..
  show "PREFERRED_TYPES_doc @ ''Remember'' \<noteq> CHR ''R'' # t"
    "PREFERRED_TYPES_doc @ ''Remember'' \<noteq> CHR ''U'' # t"
    "PREFERRED_TYPES_doc @ ''Remember'' \<noteq> CHR ''A'' # t"
    "PREFERRED_TYPES_doc @ ''Remember'' \<noteq> CHR ''E'' # t"
    "PREFERRED_TYPES_doc @ ''Remember'' \<noteq> CHR ''C'' # t"
    unfolding u by simp_all
qed

lemma doc_ne: "PREFERRED_TYPES_doc \<noteq> []"
  using doc_Cons by auto

lemma preferred_lookup:
  "dict_get PREFERRED_TYPES ''Remember'' [] = []"
  "dict_get PREFERRED_TYPES ''Understand'' [] = [''MCQ'', ''Short Answer'']"
  "dict_get PREFERRED_TYPES ''Apply'' [] = [''MCQ'', ''Problem Solving'']"
  "dict_get PREFERRED_TYPES ''Analyze'' [] = [''Short Answer'', ''Problem Solving'']"
  "dict_get PREFERRED_TYPES ''Evaluate'' [] = [''Essay'', ''Problem Solving'']"
  "dict_get PREFERRED_TYPES ''Create'' [] = [''Essay'', ''Drawing/Diagram'']"
  by (simp_all add: dict_get_def PREFERRED_TYPES_def doc_key doc_ne)


section \<open>Shuffling and determinism\<close>

lemma randbelow_less: "0 < n \<Longrightarrow> fst (randbelow n g) < n"
  by (simp add: randbelow_def split: list.splits)

lemma shuffle_from_mset: "k < length xs \<Longrightarrow> mset (shuffle_from k xs g) = mset xs"
proof (induction k arbitrary: xs g)
  case 0
  then show ?case by simp
next
  case (Suc k)
  obtain j g' where r: "randbelow (Suc (Suc k)) g = (j, g')"
    by (cases "randbelow (Suc (Suc k)) g")
  have "fst (randbelow (Suc (Suc k)) g) < Suc (Suc k)" by (rule randbelow_less) simp
  with r Suc.prems have j: "j < length xs" by simp
  have "mset (xs[Suc k := xs ! j, j := xs ! Suc k]) = mset xs"
    using mset_swap [OF j Suc.prems] .
  moreover have "mset (shuffle_from k (xs[Suc k := xs ! j, j := xs ! Suc k]) g')
       = mset (xs[Suc k := xs ! j, j := xs ! Suc k])"
    using Suc.prems by (intro Suc.IH) simp
  ultimately show ?case by (simp add: r)
qed

lemma random_shuffle_mset: "mset (random_shuffle xs g) = mset xs"
proof (cases xs)
  case Nil
  then show ?thesis by (simp add: random_shuffle_def)
next
  case (Cons x ys)
  then show ?thesis by (simp add: random_shuffle_def shuffle_from_mset)
qed

lemma random_shuffle_length: "length (random_shuffle xs g) = length xs"
  using random_shuffle_mset [of xs g] by (metis size_mset)

lemma random_shuffle_Nil_iff: "random_shuffle xs g = [] \<longleftrightarrow> xs = []"
  using random_shuffle_length [of xs g] by (metis length_0_conv)

text \<open>
  Claim C6. With \<^verbatim>\<open>shuffle=False\<close> the result does not depend on the state of the random
  generator, the only ambient state the function reads: two calls on the same inputs return
  the same list and metadata. With \<^verbatim>\<open>shuffle=True\<close> the result is the unshuffled one up
  to the order of the list: the same multiset of assigned slots and the same metadata, or
  the same error.
\<close>

theorem assign_deterministic:
  "assign_question_types_to_bloom_slots tos outcomes qts False g
     = assign_question_types_to_bloom_slots tos outcomes qts False g'
   \<and> same_up_to_order (assign_question_types_to_bloom_slots tos outcomes qts True g)
                      (assign_question_types_to_bloom_slots tos outcomes qts False g')"
  by (auto simp: assign_question_types_to_bloom_slots_def Let_def same_up_to_order_def
                 random_shuffle_mset random_shuffle_length random_shuffle_Nil_iff
           split: sum.splits)

text \<open>
  On the two-item inputs the generator output \<open>0\<close> swaps the two slots: the orders differ,
  the multisets agree.
\<close>

theorem assign_deterministic_witness:
  "assign_question_types_to_bloom_slots swapped_tos scenario_outcomes swapped_types False [0]
     = assign_question_types_to_bloom_slots swapped_tos scenario_outcomes swapped_types False [5, 2]
   \<and> same_up_to_order
        (assign_question_types_to_bloom_slots swapped_tos scenario_outcomes swapped_types True [0])
        (assign_question_types_to_bloom_slots swapped_tos scenario_outcomes swapped_types False [5, 2])
   \<and> map_sum id (map fst \<circ> fst)
        (assign_question_types_to_bloom_slots swapped_tos scenario_outcomes swapped_types False [5, 2])
       = Inr [0, 1]
   \<and> map_sum id (map fst \<circ> fst)
        (assign_question_types_to_bloom_slots swapped_tos scenario_outcomes swapped_types True [0])
       = Inr [1, 0]"
proof -
  have e: "map_sum id (map fst \<circ> fst)
        (assign_question_types_to_bloom_slots swapped_tos scenario_outcomes swapped_types False [5, 2])
       = Inr [0, 1]"
    "map_sum id (map fst \<circ> fst)
        (assign_question_types_to_bloom_slots swapped_tos scenario_outcomes swapped_types True [0])
       = Inr [1, 0]"
    by (simp_all add: assign_question_types_to_bloom_slots_def swapped_tos_def swapped_types_def
        scenario_outcomes_def expand_bloom_slots_def expand_cell_def expand_type_slots_def
        assign_step_def bind_slot_def list_pop_def preferred_lookup Let_def
        lookup_outcome_text_def random_shuffle_def randbelow_def)
  show ?thesis
    using e assign_deterministic [of swapped_tos scenario_outcomes swapped_types "[0]" "[5, 2]"]
    by simp
qed


section \<open>Remember slots\<close>

text \<open>
  Claim C2 (the code departs from it). The claim has every Remember slot matched by scanning
  MCQ then Identification. The table has no key \<^verbatim>\<open>Remember\<close>, so a Remember slot scans
  nothing and takes the first slot of the pool, counted as a fallback match.
  In the scenario of twelve Remember and eight Apply items against twelve MCQ and eight
  Problem Solving items, the Remember slots get the MCQ slots only because these come first
  in the pool, and the metadata counts 8 preferred and 12 fallback matches.
  With the essay listed before the MCQ, the Remember slot gets the essay although an MCQ
  slot is in the pool, and the Evaluate slot, which prefers the essay, gets the MCQ.
\<close>

theorem remember_takes_fallback:
  "dict_get PREFERRED_TYPES ''Remember'' [] = []
   \<and> (\<exists>xs md. assign_question_types_to_bloom_slots scenario_tos scenario_outcomes
                 scenario_types False [] = Inr (xs, md)
        \<and> preferred_matches md = 8 \<and> fallback_matches md = 12
        \<and> map (\<lambda>x. (bloom_level (snd x), question_type (snd x))) xs
            = replicate 12 (''Remember'', ''MCQ'') @ replicate 8 (''Apply'', ''Problem Solving''))
   \<and> (\<exists>xs md. assign_question_types_to_bloom_slots swapped_tos scenario_outcomes
                 swapped_types False [] = Inr (xs, md)
        \<and> preferred_matches md = 0 \<and> fallback_matches md = 2
        \<and> map (\<lambda>x. (bloom_level (snd x), question_type (snd x))) xs
            = [(''Remember'', ''Essay''), (''Evaluate'', ''MCQ'')])"
proof (intro conjI)
  show "dict_get PREFERRED_TYPES ''Remember'' [] = []"
    by (rule preferred_lookup)
  show "\<exists>xs md. assign_question_types_to_bloom_slots scenario_tos scenario_outcomes
                 scenario_types False [] = Inr (xs, md)
        \<and> preferred_matches md = 8 \<and> fallback_matches md = 12
        \<and> map (\<lambda>x. (bloom_level (snd x), question_type (snd x))) xs
            = replicate 12 (''Remember'', ''MCQ'') @ replicate 8 (''Apply'', ''Problem Solving'')"
    by (simp add: assign_question_types_to_bloom_slots_def scenario_tos_def scenario_outcomes_def
        scenario_types_def expand_bloom_slots_def expand_cell_def expand_type_slots_def
        assign_step_def bind_slot_def list_pop_def preferred_lookup Let_def
        lookup_outcome_text_def numeral_eq_Suc)
  show "\<exists>xs md. assign_question_types_to_bloom_slots swapped_tos scenario_outcomes
                 swapped_types False [] = Inr (xs, md)
        \<and> preferred_matches md = 0 \<and> fallback_matches md = 2
        \<and> map (\<lambda>x. (bloom_level (snd x), question_type (snd x))) xs
            = [(''Remember'', ''Essay''), (''Evaluate'', ''MCQ'')]"
    by (simp add: assign_question_types_to_bloom_slots_def swapped_tos_def scenario_outcomes_def
        swapped_types_def expand_bloom_slots_def expand_cell_def expand_type_slots_def
        assign_step_def bind_slot_def list_pop_def preferred_lookup Let_def
        lookup_outcome_text_def)
qed


section \<open>The matching loop\<close>









section \<open>Assignment preserves the configured totals\<close>

















section \<open>Validation reports\<close>

lemma count_list_distinct:
  "distinct xs \<longleftrightarrow> (\<forall>x \<in> set xs. count_list xs x = 1)"
proof (induction xs)
  case Nil
  then show ?case by simp
next
  case (Cons a xs)
  show ?case
  proof
    assume d: "distinct (a # xs)"
    then have "a \<notin> set xs" and "distinct xs" by auto
    with Cons.IH show "\<forall>x \<in> set (a # xs). count_list (a # xs) x = 1" by auto
  next
    assume c: "\<forall>x \<in> set (a # xs). count_list (a # xs) x = 1"
    then have "count_list xs a = 0" by simp
    then have a: "a \<notin> set xs" by (simp add: count_list_0_iff)
    have "\<forall>x \<in> set xs. count_list xs x = 1"
    proof
      fix x assume x: "x \<in> set xs"
      with a have "x \<noteq> a" by auto
      with c x show "count_list xs x = 1" by auto
    qed
    with Cons.IH a show "distinct (a # xs)" by simp
  qed
qed

lemma duplicates_empty_iff:
  "filter (\<lambda>name. count_list xs name > 1) xs = [] \<longleftrightarrow> distinct xs"
proof -
  have "x \<in> set xs \<Longrightarrow> (\<not> 1 < count_list xs x) = (count_list xs x = 1)" for x
    using count_list_0_iff [of xs x] by (cases "count_list xs x") auto
  then show ?thesis
    by (auto simp: filter_empty_conv count_list_distinct)
qed

lemma duplicates_empty_iff_Suc:
  "filter (\<lambda>name. Suc 0 < count_list xs name) xs = [] \<longleftrightarrow> distinct xs"
  using duplicates_empty_iff [of xs] by simp

lemma check_positive_empty_iff:
  "check_positive qt = [] \<longleftrightarrow> 0 < qt_items qt \<and> 0 < qt_points_per_item qt"
  by (auto simp: check_positive_def)

text \<open>
  Claim C8 (amended). \<^verbatim>\<open>validate_question_type_distribution\<close> returns \<^verbatim>\<open>(True, [])\<close>
  exactly when the list is non-empty, the item counts sum to the given total, every entry has
  positive items and positive points per item, and no two entries share a type label; its
  flag is true exactly when its error list is empty. For a non-empty list the error list has
  an entry for every violated rule: the sum mismatch, each entry without positive items,
  each entry without positive points, and the duplicated labels. For the empty list the
  function returns at once with the empty-distribution error alone, whatever the total.
\<close>

theorem validate_reports_all:
  "(validate_question_type_distribution qts total_test_items = (True, []) \<longleftrightarrow>
      qts \<noteq> [] \<and> sum_list (map qt_items qts) = total_test_items
      \<and> (\<forall>qt \<in> set qts. 0 < qt_items qt \<and> 0 < qt_points_per_item qt)
      \<and> distinct (map qt_type qts))
   \<and> (fst (validate_question_type_distribution qts total_test_items)
        \<longleftrightarrow> snd (validate_question_type_distribution qts total_test_items) = [])
   \<and> (qts \<noteq> [] \<longrightarrow>
        (sum_list (map qt_items qts) \<noteq> total_test_items \<longrightarrow>
           ItemSumMismatch (sum_list (map qt_items qts)) total_test_items
             \<in> set (snd (validate_question_type_distribution qts total_test_items)))
        \<and> (\<forall>qt \<in> set qts. qt_items qt \<le> 0 \<longrightarrow>
             ItemsNotPositive (qt_type qt) (qt_items qt)
               \<in> set (snd (validate_question_type_distribution qts total_test_items)))
        \<and> (\<forall>qt \<in> set qts. qt_points_per_item qt \<le> 0 \<longrightarrow>
             PointsNotPositive (qt_type qt) (qt_points_per_item qt)
               \<in> set (snd (validate_question_type_distribution qts total_test_items)))
        \<and> (\<not> distinct (map qt_type qts) \<longrightarrow>
             DuplicateTypes (duplicate_names qts)
               \<in> set (snd (validate_question_type_distribution qts total_test_items))))
   \<and> validate_question_type_distribution [] total_test_items = (False, [NoQuestionTypes])"
proof (intro conjI)
  show "validate_question_type_distribution qts total_test_items = (True, []) \<longleftrightarrow>
      qts \<noteq> [] \<and> sum_list (map qt_items qts) = total_test_items
      \<and> (\<forall>qt \<in> set qts. 0 < qt_items qt \<and> 0 < qt_points_per_item qt)
      \<and> distinct (map qt_type qts)"
    by (auto simp: validate_question_type_distribution_def Let_def duplicates_empty_iff_Suc
        check_positive_empty_iff)
  show "fst (validate_question_type_distribution qts total_test_items)
        \<longleftrightarrow> snd (validate_question_type_distribution qts total_test_items) = []"
    by (simp add: validate_question_type_distribution_def Let_def)
  show "validate_question_type_distribution [] total_test_items = (False, [NoQuestionTypes])"
    by (simp add: validate_question_type_distribution_def)
  show "qts \<noteq> [] \<longrightarrow>
        (sum_list (map qt_items qts) \<noteq> total_test_items \<longrightarrow>
           ItemSumMismatch (sum_list (map qt_items qts)) total_test_items
             \<in> set (snd (validate_question_type_distribution qts total_test_items)))
        \<and> (\<forall>qt \<in> set qts. qt_items qt \<le> 0 \<longrightarrow>
             ItemsNotPositive (qt_type qt) (qt_items qt)
               \<in> set (snd (validate_question_type_distribution qts total_test_items)))
        \<and> (\<forall>qt \<in> set qts. qt_points_per_item qt \<le> 0 \<longrightarrow>
             PointsNotPositive (qt_type qt) (qt_points_per_item qt)
               \<in> set (snd (validate_question_type_distribution qts total_test_items)))
        \<and> (\<not> distinct (map qt_type qts) \<longrightarrow>
             DuplicateTypes (duplicate_names qts)
               \<in> set (snd (validate_question_type_distribution qts total_test_items)))"
    by (auto simp: validate_question_type_distribution_def Let_def duplicates_empty_iff_Suc
        duplicate_names_def check_positive_def)
qed


theorem validate_reports_all_witness:
  "validate_question_type_distribution docstring_types 42 = (True, [])
   \<and> invalid_types \<noteq> [] \<and> sum_list (map qt_items invalid_types) \<noteq> 5
   \<and> \<not> distinct (map qt_type invalid_types)
   \<and> validate_question_type_distribution invalid_types 5
       = (False, [ItemSumMismatch 3 5, ItemsNotPositive ''MCQ'' 0, PointsNotPositive ''MCQ'' 0,
                  DuplicateTypes {''MCQ''}])
   \<and> ItemSumMismatch (sum_list (map qt_items invalid_types)) 5
        \<in> set (snd (validate_question_type_distribution invalid_types 5))
   \<and> DuplicateTypes (duplicate_names invalid_types)
        \<in> set (snd (validate_question_type_distribution invalid_types 5))"
proof -
  have v: "docstring_types \<noteq> [] \<and> sum_list (map qt_items docstring_types) = 42
      \<and> (\<forall>qt \<in> set docstring_types. 0 < qt_items qt \<and> 0 < qt_points_per_item qt)
      \<and> distinct (map qt_type docstring_types)"
    by (simp add: docstring_types_def)
  have i: "invalid_types \<noteq> []" "sum_list (map qt_items invalid_types) \<noteq> 5"
    "\<not> distinct (map qt_type invalid_types)"
    by (simp_all add: invalid_types_def)
  have e: "validate_question_type_distribution invalid_types 5
       = (False, [ItemSumMismatch 3 5, ItemsNotPositive ''MCQ'' 0, PointsNotPositive ''MCQ'' 0,
                  DuplicateTypes {''MCQ''}])"
    by (simp add: validate_question_type_distribution_def invalid_types_def check_positive_def)
  show ?thesis
    using v i e validate_reports_all [of docstring_types 42]
      validate_reports_all [of invalid_types 5]
    by blast
qed


text \<open>
  The claim as stated has the empty distribution with a non-zero total report the sum
  mismatch too. The sum of no items is not 5, and the only error is the empty-distribution
  one.
\<close>

theorem validate_empty_counterexample:
  "sum_list (map qt_items ([] :: QuestionType list)) \<noteq> 5
   \<and> validate_question_type_distribution [] 5 = (False, [NoQuestionTypes])
   \<and> ItemSumMismatch 0 5 \<notin> set (snd (validate_question_type_distribution [] 5))"
  by (simp add: validate_question_type_distribution_def)


section \<open>Largest-remainder allocation\<close>
























section \<open>Bloom totals\<close>

lemma totals_loop_sum:
  "totals_loop bw t ls (d, r) = Inr (d', r') \<Longrightarrow>
   distinct ls \<Longrightarrow> set ls \<inter> fst ` set d = {} \<Longrightarrow>
   map fst d' = map fst d @ ls \<and> sum_list (map snd d') + r' = sum_list (map snd d) + r"
proof (induction ls arbitrary: d r)
  case Nil
  then show ?case by simp
next
  case (Cons l ls)
  from Cons.prems(1) obtain n where n: "bloom_count bw t l = Inr n"
    and rest: "totals_loop bw t ls (dict_set d l n, r - n) = Inr (d', r')"
    by (auto split: sum.splits)
  from Cons.prems have l: "l \<notin> fst ` set d" and dl: "distinct ls" and ll: "l \<notin> set ls"
    and dis: "set ls \<inter> fst ` set d = {}" by auto
  have ds: "dict_set d l n = d @ [(l, n)]" using l by (induction d) auto
  have "set ls \<inter> fst ` set (dict_set d l n) = {}" using dis ll by (auto simp: ds)
  from Cons.IH [OF rest dl this] show ?case by (simp add: ds)
qed

lemma compute_bloom_item_totals_sum:
  assumes "compute_bloom_item_totals bw t = Inr items"
  shows "map fst items = BLOOM_LEVELS \<and> sum_list (map snd items) = t"
proof -
  from assms obtain d r where
    l: "totals_loop bw t (butlast BLOOM_LEVELS) ([], t) = Inr (d, r)"
    and i: "items = dict_set d (last BLOOM_LEVELS) r"
    by (auto simp: compute_bloom_item_totals_def split: sum.splits)
  have "distinct (butlast BLOOM_LEVELS)" by (simp add: BLOOM_LEVELS_def)
  from totals_loop_sum [OF l this] have k: "map fst d = butlast BLOOM_LEVELS"
    and s: "sum_list (map snd d) + r = t" by simp_all
  have "last BLOOM_LEVELS \<notin> set (map fst d)" unfolding k by (simp add: BLOOM_LEVELS_def)
  then have "last BLOOM_LEVELS \<notin> fst ` set d" by simp
  then have "dict_set d (last BLOOM_LEVELS) r = d @ [(last BLOOM_LEVELS, r)]"
    by (induction d) auto
  then show ?thesis using k s by (simp add: i BLOOM_LEVELS_def)
qed

lemma bit_length_nonneg: "0 \<le> bit_length n"
  by (induction n rule: bit_length.induct) (simp add: bit_length.simps)

lemma bit_length_mono: "a \<le> b \<Longrightarrow> bit_length a \<le> bit_length b"
proof (induction b arbitrary: a rule: bit_length.induct)
  case (1 b)
  show ?case
  proof (cases "a \<le> 0")
    case True
    then show ?thesis using bit_length_nonneg [of b] by (simp add: bit_length.simps [of a])
  next
    case False
    with "1.prems" have b: "\<not> b \<le> 0" by simp
    have "a div 2 \<le> b div 2" using "1.prems" by (rule zdiv_mono1) simp
    from "1.IH" [OF b this] show ?thesis
      using False b by (simp add: bit_length.simps [of a] bit_length.simps [of b])
  qed
qed

lemma floor_log2_le: "p \<le> q \<Longrightarrow> floor_log2 p q \<le> 0"
  using bit_length_mono [of p q] by (simp add: floor_log2_def Let_def)

lemma percent_share_finite: "0 \<le> w \<Longrightarrow> w \<le> 100 \<Longrightarrow> \<not> overflows (int_true_div w 100)"
  using floor_log2_le [of w 100]
  by (simp add: overflows_def int_true_div_def round_binary64_def Let_def)

lemma bloom_count_zero:
  assumes "map_of bw bloom = Some w" and "0 \<le> w" and "w \<le> 100"
  shows "bloom_count bw 0 bloom = Inr 0"
  using assms percent_share_finite [of w]
  by (simp add: bloom_count_def Let_def float_of_int_def float_mul_def round_binary64_def
      overflows_def int_of_float_def)

lemma compute_bloom_item_totals_zero:
  assumes "\<forall>bloom \<in> set BLOOM_LEVELS. \<exists>w. map_of bw bloom = Some w \<and> 0 \<le> w \<and> w \<le> 100"
  shows "compute_bloom_item_totals bw 0 = Inr (map (\<lambda>bloom. (bloom, 0)) BLOOM_LEVELS)"
proof -
  have "bloom_count bw 0 bloom = Inr 0" if "bloom \<in> set BLOOM_LEVELS" for bloom
    using assms that bloom_count_zero by blast
  then show ?thesis
    by (simp add: compute_bloom_item_totals_def BLOOM_LEVELS_def)
qed

text \<open>
  The division \<^verbatim>\<open>70 / 100\<close> gives the binary64 value just below 7/10, and 90 times it
  rounds to the value just below 63.
\<close>

lemma seventy_percent_of_ninety:
  "int_true_div 70 100 = (6305039478318694, - 53)"
  "float_mul (float_of_int 90) (int_true_div 70 100) = (8866461766385663, - 47)"
  "8866461766385663 < (63 :: int) * 2 ^ 47"
  by code_simp+

text \<open>
  Claim C5 (the code departs from it). The claim gives each of the first five levels
  \<open>floor (total_items * weight / 100)\<close>. The code truncates the floating-point product
  \<^verbatim>\<open>total_items * (weight / 100)\<close>, which can lie just below the exact integer. For 90
  items with 70 percent for Remember and 30 percent for Understand the code returns 62 for
  Remember, where \<open>floor (90 * 70 / 100) = 63\<close>, and the unit that is missing goes to Create.
  The other parts of the claim hold: whenever the function returns, its six counts are
  those of the six levels in canonical order and sum to \<open>total_items\<close>
  (\<open>compute_bloom_item_totals_sum\<close>), and for percentages between 0 and 100 and no items
  every level gets 0 (\<open>compute_bloom_item_totals_zero\<close>).
\<close>

theorem bloom_totals_float_truncation:
  "compute_bloom_item_totals slider_weights 90
     = Inr [(''Remember'', 62), (''Understand'', 27), (''Apply'', 0), (''Analyze'', 0),
            (''Evaluate'', 0), (''Create'', 1)]
   \<and> \<lfloor>(90 :: rat) * 70 / 100\<rfloor> = 63
   \<and> \<lfloor>(90 :: rat) * 30 / 100\<rfloor> = 27"
proof (intro conjI)
  show "compute_bloom_item_totals slider_weights 90
     = Inr [(''Remember'', 62), (''Understand'', 27), (''Apply'', 0), (''Analyze'', 0),
            (''Evaluate'', 0), (''Create'', 1)]"
    by code_simp
  show "\<lfloor>(90 :: rat) * 70 / 100\<rfloor> = 63" by simp
  show "\<lfloor>(90 :: rat) * 30 / 100\<rfloor> = 27" by simp
qed

end
